theory Spec2Isabelle
  imports Main "HOL-Library.Sublist"
begin

section \<open>Values\<close>

text \<open>
  JavaScript values as far as the hooks handle them: payloads, responses, query-parameter
  objects and the elements of a query key (\<open>QueryKey = readonly unknown[]\<close>).
  \<open>undefined\<close> is not a value of this type; an optional argument or property is an
  \<open>option\<close>.
\<close>

datatype json =
    JNull
  | JBool bool
  | JNum int
  | JStr string
  | JArr "json list"
  | JObj "(string \<times> json) list"

type_synonym queryKey = "json list"

text \<open>
  What a promise can reject with, or a \<open>throw\<close> can raise: an \<open>Error\<close> object (with its
  message), a \<open>FetchError\<close> (the SDK's subclass of \<open>Error\<close>, with message and HTTP status),
  or any other value.
\<close>

datatype thrown =
    Error string
  | FetchError string nat
  | NonError json

fun instanceofError :: "thrown \<Rightarrow> bool" where
  "instanceofError (Error m) = True"
| "instanceofError (FetchError m s) = True"
| "instanceofError (NonError v) = False"

text \<open>\<open>error.message\<close>; a value that is no \<open>Error\<close> has none, read as the empty text.\<close>

fun message :: "thrown \<Rightarrow> string" where
  "message (Error m) = m"
| "message (FetchError m s) = m"
| "message (NonError v) = []"

text \<open>
  An own property of an options object: missing, present with the value \<open>undefined\<close>, or
  present with a value. Object spread copies the last two and skips the first.
\<close>

datatype 'a ownProperty = Absent | Undefined | Defined 'a

fun spreadProp :: "'a ownProperty \<Rightarrow> 'a ownProperty \<Rightarrow> 'a ownProperty" where
  "spreadProp earlier Absent = earlier"
| "spreadProp earlier later = later"

section \<open>Query-key factory\<close>

record queryKeyFactory =
  all :: queryKey
  lists :: "unit \<Rightarrow> queryKey"
  list :: "json option \<Rightarrow> queryKey"
  details :: "unit \<Rightarrow> queryKey"
  detail :: "string \<Rightarrow> json option \<Rightarrow> queryKey"

text \<open>
  Modelled from the spec: \<open>queryKeysFactory\<close> of \<open>lib/query-key-factory\<close> is imported by the
  hooks but is not among the sources. The spec (Query-key factory) gives
  \<open>all = [tag]\<close>, \<open>list(query?) = [tag, "list", query]\<close> with the query omitted if undefined,
  \<open>lists() = [tag, "list"]\<close>, \<open>detail(id, query?) = [tag, "detail", id, query]\<close> and
  \<open>details() = [tag, "detail"]\<close>. The hooks call \<open>detail(id)\<close> with no query; the optional
  query of \<open>detail\<close> is read like that of \<open>list\<close>: left out when undefined.
\<close>

definition queryKeysFactory :: "string \<Rightarrow> queryKeyFactory" where
  "queryKeysFactory tag =
     \<lparr> all = [JStr tag],
       lists = (\<lambda>_. [JStr tag, JStr ''list'']),
       list = (\<lambda>q. [JStr tag, JStr ''list''] @ (case q of None \<Rightarrow> [] | Some v \<Rightarrow> [v])),
       details = (\<lambda>_. [JStr tag, JStr ''detail'']),
       detail = (\<lambda>i q. [JStr tag, JStr ''detail'', JStr i]
                          @ (case q of None \<Rightarrow> [] | Some v \<Rightarrow> [v])) \<rparr>"

definition SHIPPING_PROFILE_QUERY_KEY :: string where
  "SHIPPING_PROFILE_QUERY_KEY = ''shipping_profile''"

definition shippingProfileQueryKeys :: queryKeyFactory where
  "shippingProfileQueryKeys = queryKeysFactory SHIPPING_PROFILE_QUERY_KEY"

section \<open>Network boundary\<close>

datatype httpMethod = GET | POST | DELETE

text \<open>
  The second argument of \<open>fetchQuery(path, {method, query, body})\<close> together with the path:
  the one HTTP request a call issues. A property the caller leaves out is \<open>None\<close>; the
  property \<open>method\<close> is the field \<open>method'\<close>.
\<close>

record request =
  path :: string
  method' :: httpMethod
  query :: "json option"
  body :: "json option"

text \<open>
  \<open>fetchQuery\<close> of \<open>lib/client\<close> is the transport. It is a parameter of the model: what
  the server answers to a request, either a thrown \<open>FetchError\<close> or the response body.
\<close>

type_synonym network = "request \<Rightarrow> thrown + json"

section \<open>Cache store boundary\<close>

record queryState =
  state_data :: json
  isInvalidated :: bool

type_synonym queryCache = "queryKey \<rightharpoonup> queryState"

text \<open>
  Modelled from the spec: \<open>queryClient\<close> of \<open>lib/query-client\<close> is an instance of the
  external cache store. The spec (Cache store boundary) names its two operations:
  "invalidate queries matching key prefix", which marks every entry stale whose key has
  the given key as a prefix, and "ensure query data", fetch-or-reuse.
\<close>

definition invalidateQueries :: "queryKey \<Rightarrow> queryCache \<Rightarrow> queryCache" where
  "invalidateQueries k c =
     (\<lambda>k'. case c k' of
             None \<Rightarrow> None
           | Some e \<Rightarrow> Some (if prefix k k' then e\<lparr>isInvalidated := True\<rparr> else e))"

text \<open>
  The options object handed to \<open>useQuery\<close> and to \<open>ensureQueryData\<close>. \<open>queryFn\<close> is a
  thunk whose body is a single \<open>fetchQuery\<close> call: the model keeps the request it issues.
  \<open>others\<close> are the own properties of a caller's \<open>options\<close>, whose type
  (\<open>Omit<UseQueryOptions, 'queryFn' | 'queryKey'>\<close>) excludes the two named ones.
\<close>

record queryOptions =
  queryKey :: queryKey
  queryFn :: request
  others :: "(string \<times> json) list"

text \<open>
  Modelled from the spec: "ensure query data" of the external cache store (Route loaders):
  a fresh entry under the key is reused; otherwise the data is fetched and, when the fetch
  succeeds, stored as a fresh entry; a failure of the fetch propagates.
\<close>

definition ensureQueryData ::
  "queryOptions \<Rightarrow> network \<Rightarrow> queryCache \<Rightarrow> (thrown + json) \<times> queryCache" where
  "ensureQueryData opts net c =
     (let fetched =
            (case net (queryFn opts) of
               Inl err \<Rightarrow> (Inl err, c)
             | Inr d \<Rightarrow>
                 (Inr d, c(queryKey opts \<mapsto> \<lparr>state_data = d, isInvalidated = False\<rparr>)))
      in case c (queryKey opts) of
           None \<Rightarrow> fetched
         | Some e \<Rightarrow> if isInvalidated e then fetched else (Inr (state_data e), c))"

section \<open>Query hooks\<close>

record queryRest =
  isPending :: bool
  isError :: bool
  error :: "thrown option"

record queryResult = queryRest +
  data :: "json option"

text \<open>
  Modelled from the spec: \<open>useQuery\<close> belongs to the external data-fetching library. The
  spec (Data-access hooks, Error handling design) says that a failure surfaces as a fetch
  error, that nothing retries or recovers, and that the result exposes an
  \<open>isError\<close>/\<open>error\<close> pair. This is the result once the one request has settled.
\<close>

definition useQuery :: "queryOptions \<Rightarrow> network \<Rightarrow> queryResult" where
  "useQuery opts net =
     (case net (queryFn opts) of
        Inl e \<Rightarrow> \<lparr>isPending = False, isError = True, error = Some e, data = None\<rparr>
      | Inr d \<Rightarrow> \<lparr>isPending = False, isError = False, error = None, data = Some d\<rparr>)"

text \<open>
  What a query hook returns, \<open>{ ...data, ...rest }\<close>: the own properties of the response
  object, then the properties of the query result, which win where a name occurs twice.
\<close>

record hookResult = queryRest +
  dataFields :: "(string \<times> json) list"

definition restNames :: "string list" where
  "restNames = [''isPending'', ''isError'', ''error'']"

definition spreadResult :: "queryResult \<Rightarrow> hookResult" where
  "spreadResult r =
     \<lparr>isPending = isPending r, isError = isError r, error = error r,
      dataFields =
        (case data r of
           Some (JObj fs) \<Rightarrow> filter (\<lambda>kv. fst kv \<notin> set restNames) fs
         | _ \<Rightarrow> [])\<rparr>"

definition spreadOthers :: "(string \<times> json) list option \<Rightarrow> (string \<times> json) list" where
  "spreadOthers options = (case options of None \<Rightarrow> [] | Some ps \<Rightarrow> ps)"

definition useShippingProfileQuery ::
  "string \<Rightarrow> json option \<Rightarrow> (string \<times> json) list option \<Rightarrow> queryOptions" where
  "useShippingProfileQuery i q options =
     \<lparr>queryKey = detail shippingProfileQueryKeys i q,
      queryFn = \<lparr>path = ''/vendor/shipping-profiles/'' @ i, method' = GET,
                 query = q, body = None\<rparr>,
      others = spreadOthers options\<rparr>"

definition useShippingProfile ::
  "string \<Rightarrow> json option \<Rightarrow> (string \<times> json) list option \<Rightarrow> network \<Rightarrow> hookResult" where
  "useShippingProfile i q options net =
     spreadResult (useQuery (useShippingProfileQuery i q options) net)"

definition useShippingProfilesQuery ::
  "json option \<Rightarrow> (string \<times> json) list option \<Rightarrow> queryOptions" where
  "useShippingProfilesQuery q options =
     \<lparr>queryKey = list shippingProfileQueryKeys q,
      queryFn = \<lparr>path = ''/vendor/shipping-profiles'', method' = GET,
                 query = None, body = None\<rparr>,
      others = spreadOthers options\<rparr>"

definition useShippingProfiles ::
  "json option \<Rightarrow> (string \<times> json) list option \<Rightarrow> network \<Rightarrow> hookResult" where
  "useShippingProfiles q options net =
     spreadResult (useQuery (useShippingProfilesQuery q options) net)"

section \<open>Route loader\<close>

definition shippingProfileQuery :: "string \<Rightarrow> queryOptions" where
  "shippingProfileQuery i =
     \<lparr>queryKey = detail shippingProfileQueryKeys i None,
      queryFn = \<lparr>path = ''/vendor/shipping-profiles/'' @ i, method' = GET,
                 query = None, body = None\<rparr>,
      others = []\<rparr>"

text \<open>
  The route parameters. The loader reads \<open>params.shipping_profile_id!\<close>: the route always
  carries the id.
\<close>

record loaderParams =
  shipping_profile_id :: string

definition shippingProfileLoader ::
  "loaderParams \<Rightarrow> network \<Rightarrow> queryCache \<Rightarrow> (thrown + json) \<times> queryCache" where
  "shippingProfileLoader params net c =
     (let i = shipping_profile_id params;
          q = shippingProfileQuery i
      in ensureQueryData q net c)"

section \<open>Mutation hooks\<close>

text \<open>
  \<open>UseMutationOptions\<close>, the type of the caller's \<open>options\<close> and of the object handed to
  \<open>useMutation\<close>, with the two properties the hooks set themselves. A success callback
  receives the response and the variables and acts on the cache store (the \<open>context\<close>
  argument, undefined without \<open>onMutate\<close>, is left out).
\<close>

type_synonym onSuccessFn = "json \<Rightarrow> json \<Rightarrow> queryCache \<Rightarrow> queryCache"

record mutationOptions =
  mutationFn :: "(json \<Rightarrow> request) ownProperty"
  onSuccess :: "onSuccessFn ownProperty"

text \<open>\<open>{ ...base, ...options }\<close> for an optional \<open>options\<close>.\<close>

definition spreadOptions :: "mutationOptions \<Rightarrow> mutationOptions option \<Rightarrow> mutationOptions" where
  "spreadOptions base options =
     (case options of
        None \<Rightarrow> base
      | Some opts \<Rightarrow>
          \<lparr>mutationFn = spreadProp (mutationFn base) (mutationFn opts),
           onSuccess = spreadProp (onSuccess base) (onSuccess opts)\<rparr>)"

text \<open>\<open>options?.onSuccess?.(data, variables, context)\<close>.\<close>

definition callOnSuccess :: "mutationOptions option \<Rightarrow> onSuccessFn" where
  "callOnSuccess options d v c =
     (case options of
        None \<Rightarrow> c
      | Some opts \<Rightarrow> (case onSuccess opts of Defined cb \<Rightarrow> cb d v c | _ \<Rightarrow> c))"

text \<open>
  Modelled from the spec: \<open>useMutation\<close> belongs to the external data-fetching library.
  Running the mutation it returns calls \<open>mutationFn\<close> with the variables; a failure
  rejects (Error handling design: "mutation hooks reject"), a success runs \<open>onSuccess\<close>.
  A hook below is identified with the options object it hands to \<open>useMutation\<close>.
\<close>

definition mutate ::
  "mutationOptions \<Rightarrow> network \<Rightarrow> json \<Rightarrow> queryCache \<Rightarrow> (thrown + json) \<times> queryCache" where
  "mutate m net v c =
     (case mutationFn m of
        Defined f \<Rightarrow>
          (case net (f v) of
             Inl e \<Rightarrow> (Inl e, c)
           | Inr d \<Rightarrow> (Inr d, (case onSuccess m of Defined cb \<Rightarrow> cb d v c | _ \<Rightarrow> c)))
      | _ \<Rightarrow> (Inl (Error ''No mutationFn found''), c))"

definition useCreateShippingProfile :: "mutationOptions option \<Rightarrow> mutationOptions" where
  "useCreateShippingProfile options =
     spreadOptions
       \<lparr>mutationFn = Defined (\<lambda>payload.
          \<lparr>path = ''/vendor/shipping-profiles'', method' = POST,
           query = None, body = Some payload\<rparr>),
        onSuccess = Defined (\<lambda>d v c.
          callOnSuccess options d v
            (invalidateQueries (lists shippingProfileQueryKeys ()) c))\<rparr>
       options"

definition useUpdateShippingProfile ::
  "string \<Rightarrow> mutationOptions option \<Rightarrow> mutationOptions" where
  "useUpdateShippingProfile i options =
     spreadOptions
       \<lparr>mutationFn = Defined (\<lambda>payload.
          \<lparr>path = ''/vendor/shipping-profiles/'' @ i, method' = POST,
           query = None, body = Some payload\<rparr>),
        onSuccess = Defined (\<lambda>d v c.
          callOnSuccess options d v
            (invalidateQueries (lists shippingProfileQueryKeys ())
              (invalidateQueries (detail shippingProfileQueryKeys i None) c)))\<rparr>
       options"

definition useDeleteShippingProfile ::
  "string \<Rightarrow> mutationOptions option \<Rightarrow> mutationOptions" where
  "useDeleteShippingProfile i options =
     spreadOptions
       \<lparr>mutationFn = Defined (\<lambda>_.
          \<lparr>path = ''/vendor/shipping-profiles/'' @ i, method' = DELETE,
           query = None, body = None\<rparr>),
        onSuccess = Defined (\<lambda>d v c.
          callOnSuccess options d v
            (invalidateQueries (lists shippingProfileQueryKeys ())
              (invalidateQueries (detail shippingProfileQueryKeys i None) c)))\<rparr>
       options"

text \<open>The third element of a detail key, where the factory puts the id.\<close>

definition idComponent :: "queryKey \<Rightarrow> json option" where
  "idComponent k = (case k of _ # _ # i # _ \<Rightarrow> Some i | _ \<Rightarrow> None)"

section \<open>Inventory list table\<close>

definition PAGE_SIZE :: int where
  "PAGE_SIZE = 20"

text \<open>The argument of \<open>useInventoryItems\<close>; \<open>searchParams?.offset\<close> may be undefined.\<close>

definition inventoryItemsParams :: "json option \<Rightarrow> json" where
  "inventoryItemsParams offset =
     JObj ([(''limit'', JNum PAGE_SIZE)]
           @ (case offset of None \<Rightarrow> [] | Some v \<Rightarrow> [(''offset'', v)])
           @ [(''fields'', JStr ''id,title,sku,*location_levels'')])"

record inventoryListView =
  rows :: json
  count :: "json option"
  isLoading :: bool

text \<open>
  \<open>useInventoryItems\<close> of \<open>hooks/api/inventory\<close> is not among the sources: the component
  takes it as a parameter, a list hook from its query parameters to its result. The
  component either throws (\<open>Inl\<close>, with the value of \<open>error\<close>) or renders the table.
\<close>

definition InventoryListTable ::
  "(json \<Rightarrow> hookResult) \<Rightarrow> json option \<Rightarrow> thrown option + inventoryListView" where
  "InventoryListTable useInventoryItems offset =
     (let r = useInventoryItems (inventoryItemsParams offset)
      in if isError r then Inl (error r)
         else Inr \<lparr>rows = (case map_of (dataFields r) ''inventory_items'' of
                             None \<Rightarrow> JArr []
                           | Some JNull \<Rightarrow> JArr []
                           | Some v \<Rightarrow> v),
                    count = map_of (dataFields r) ''count'',
                    isLoading = isPending r\<rparr>)"

section \<open>Edit-store form\<close>

record storeFields =
  name :: string
  description :: "string option"
  phone :: "string option"
  email :: "string option"

record storeVendor = storeFields +
  photo :: "string option"

record editStoreValues = storeFields +
  media :: "json list option"

record updateMe = storeFields +
  photo :: string

record adminFile =
  file_id :: string
  url :: string

record uploadedFile = adminFile +
  isThumbnail :: bool

text \<open>
  What the submit handler does, in order: notifications, the call of \<open>mutateAsync\<close> with
  its payload, and \<open>handleSuccess\<close> closing the drawer.
\<close>

datatype event =
    ToastError string
  | ToastSuccess string
  | MutateAsync updateMe
  | HandleSuccess

record submitResult =
  events :: "event list"
  rejected :: "thrown option"

text \<open>
  \<open>uploadFilesQuery\<close> of \<open>lib/client\<close> and \<open>mutateAsync\<close> of \<open>useUpdateMe\<close> are not among
  the sources: both are parameters, giving the outcome of the call. The upload resolves
  to the \<open>files\<close> of its response, typed as the handler declares \<open>uploadedMedia\<close>.
  \<open>mutateAsync\<close> runs the \<open>onSuccess\<close> or \<open>onError\<close> callback it is given and rejects on
  an error, which the handler does not catch.
\<close>

definition handleSubmit ::
  "storeVendor \<Rightarrow> (json list \<Rightarrow> thrown + adminFile list) \<Rightarrow> (updateMe \<Rightarrow> thrown + json)
     \<Rightarrow> editStoreValues \<Rightarrow> submitResult" where
  "handleSubmit seller uploadFilesQuery mutateAsync values =
     (let (uploadedMedia, caught) =
            (case media values of
               None \<Rightarrow> ([], [])
             | Some ms \<Rightarrow>
                 if ms = [] then ([], [])
                 else (case uploadFilesQuery ms of
                         Inr fs \<Rightarrow>
                           (map (\<lambda>f. \<lparr>file_id = file_id f, url = url f,
                                       isThumbnail = False\<rparr>) fs, [])
                       | Inl err \<Rightarrow>
                           ([], if instanceofError err then [ToastError (message err)]
                                else [])));
          sellerPhoto = (case storeVendor.photo seller of None \<Rightarrow> [] | Some p \<Rightarrow> p);
          payload =
            \<lparr>name = name values, description = description values,
             phone = phone values, email = email values,
             updateMe.photo =
               (case uploadedMedia of
                  [] \<Rightarrow> sellerPhoto
                | f # _ \<Rightarrow> if url f \<noteq> [] then url f else sellerPhoto)\<rparr>
      in case mutateAsync payload of
           Inr d \<Rightarrow>
             \<lparr>events = caught @ [MutateAsync payload, ToastSuccess ''Store updated'',
                                  HandleSuccess],
              rejected = None\<rparr>
         | Inl e \<Rightarrow>
             \<lparr>events = caught @ [MutateAsync payload, ToastError (message e)],
              rejected = Some e\<rparr>)"

section \<open>Theorems about the query-key factory\<close>

lemma lists_eq: "lists (queryKeysFactory r) u = [JStr r, JStr ''list'']"
  by (simp add: queryKeysFactory_def)

lemma details_eq: "details (queryKeysFactory r) u = [JStr r, JStr ''detail'']"
  by (simp add: queryKeysFactory_def)

lemma list_eq:
  "list (queryKeysFactory r) q
     = [JStr r, JStr ''list''] @ (case q of None \<Rightarrow> [] | Some v \<Rightarrow> [v])"
  by (simp add: queryKeysFactory_def)

lemma detail_eq:
  "detail (queryKeysFactory r) i q
     = [JStr r, JStr ''detail'', JStr i] @ (case q of None \<Rightarrow> [] | Some v \<Rightarrow> [v])"
  by (simp add: queryKeysFactory_def)

text \<open>
  Without a query, \<open>list()\<close> is the key \<open>lists()\<close> itself, so prefix invalidation of
  \<open>lists()\<close> reaches it as well.
\<close>

lemma list_undefined_eq_lists:
  "list (queryKeysFactory r) None = lists (queryKeysFactory r) ()"
  by (simp add: list_eq lists_eq)

lemma lists_prefix_list: "prefix (lists (queryKeysFactory r) ()) (list (queryKeysFactory r) q)"
  by (simp add: list_eq lists_eq)

text \<open>
  C5, as stated, fails where the query is left out: \<open>useShippingProfiles()\<close> caches under
  \<open>list(undefined)\<close>, which is the key \<open>lists()\<close> itself, so \<open>lists()\<close> is a prefix of
  it but not a strict one.
\<close>

theorem list_without_query_not_strict_counterexample:
  "list shippingProfileQueryKeys None = lists shippingProfileQueryKeys ()
   \<and> \<not> strict_prefix (lists shippingProfileQueryKeys ()) (list shippingProfileQueryKeys None)"
  by (simp add: shippingProfileQueryKeys_def list_eq lists_eq)

text \<open>
  C5, amended. For every resource tag \<open>r\<close>, every optional query \<open>q\<close> and every id \<open>i\<close>:
  \<open>lists()\<close> is a prefix of \<open>list(q)\<close>, a strict one exactly when the query is given, and
  equal to it when the query is left out; \<open>details()\<close> is a strict prefix of
  \<open>detail(i, q')\<close> whether the query \<open>q'\<close> is given or not. So prefix invalidation of
  \<open>lists()\<close> or \<open>details()\<close> reaches every list key and every detail key.
\<close>

theorem lists_details_prefix:
  "prefix (lists (queryKeysFactory r) ()) (list (queryKeysFactory r) q)
   \<and> strict_prefix (lists (queryKeysFactory r) ()) (list (queryKeysFactory r) q) = (q \<noteq> None)
   \<and> (list (queryKeysFactory r) q = lists (queryKeysFactory r) ()) = (q = None)
   \<and> strict_prefix (details (queryKeysFactory r) ()) (detail (queryKeysFactory r) i q')"
  by (cases q; cases q'; simp add: list_eq lists_eq detail_eq details_eq)

text \<open>
  C6. Distinct query parameters (an absent query included) give distinct list keys, and
  structurally equal query parameters give equal keys: keys are plain values.
\<close>

theorem list_key_distinct_iff:
  "(q1 \<noteq> q2 \<longrightarrow> list (queryKeysFactory r) q1 \<noteq> list (queryKeysFactory r) q2)
   \<and> (q1 = q2 \<longrightarrow> list (queryKeysFactory r) q1 = list (queryKeysFactory r) q2)"
  by (auto simp: list_eq split: option.splits)

theorem list_key_distinct_iff_witness:
  "Some (JObj [(''limit'', JNum 20)]) \<noteq> Some (JObj [(''limit'', JNum 50)])
   \<and> list shippingProfileQueryKeys (Some (JObj [(''limit'', JNum 20)]))
       \<noteq> list shippingProfileQueryKeys (Some (JObj [(''limit'', JNum 50)]))
   \<and> list shippingProfileQueryKeys (Some (JObj [(''limit'', JNum 20)]))
       = [JStr ''shipping_profile'', JStr ''list'', JObj [(''limit'', JNum 20)]]"
  using list_key_distinct_iff
          [of "Some (JObj [(''limit'', JNum 20)])" "Some (JObj [(''limit'', JNum 50)])"
              SHIPPING_PROFILE_QUERY_KEY]
  by (simp add: shippingProfileQueryKeys_def SHIPPING_PROFILE_QUERY_KEY_def list_eq)

text \<open>
  C8. \<open>shippingProfileQueryKeys.detail("sp_1", {expand: "a"})\<close> is the key
  \<open>["shipping_profile", "detail", "sp_1", {expand: "a"}]\<close>.
\<close>

theorem detail_sp_1_expand:
  "detail shippingProfileQueryKeys ''sp_1'' (Some (JObj [(''expand'', JStr ''a'')]))
     = [JStr ''shipping_profile'', JStr ''detail'', JStr ''sp_1'',
        JObj [(''expand'', JStr ''a'')]]"
  by (simp add: shippingProfileQueryKeys_def SHIPPING_PROFILE_QUERY_KEY_def detail_eq)

section \<open>Cache invalidation by the mutation hooks\<close>

lemma shipping_lists:
  "lists shippingProfileQueryKeys u = [JStr ''shipping_profile'', JStr ''list'']"
  by (simp add: shippingProfileQueryKeys_def SHIPPING_PROFILE_QUERY_KEY_def lists_eq)

lemma shipping_details:
  "details shippingProfileQueryKeys u = [JStr ''shipping_profile'', JStr ''detail'']"
  by (simp add: shippingProfileQueryKeys_def SHIPPING_PROFILE_QUERY_KEY_def details_eq)

lemma shipping_list:
  "list shippingProfileQueryKeys q
     = [JStr ''shipping_profile'', JStr ''list''] @ (case q of None \<Rightarrow> [] | Some v \<Rightarrow> [v])"
  by (simp add: shippingProfileQueryKeys_def SHIPPING_PROFILE_QUERY_KEY_def list_eq)

lemma shipping_detail:
  "detail shippingProfileQueryKeys i q
     = [JStr ''shipping_profile'', JStr ''detail'', JStr i]
       @ (case q of None \<Rightarrow> [] | Some v \<Rightarrow> [v])"
  by (simp add: shippingProfileQueryKeys_def SHIPPING_PROFILE_QUERY_KEY_def detail_eq)

lemma invalidateQueries_apply:
  "invalidateQueries k c k'
     = map_option (\<lambda>e. if prefix k k' then e\<lparr>isInvalidated := True\<rparr> else e) (c k')"
  by (simp add: invalidateQueries_def split: option.split)

lemma invalidateQueries_under:
  "prefix k k' \<Longrightarrow> c k' = Some e \<Longrightarrow> invalidateQueries k c k' = Some (e\<lparr>isInvalidated := True\<rparr>)"
  by (simp add: invalidateQueries_apply)

lemma invalidateQueries_outside:
  "\<not> prefix k k' \<Longrightarrow> invalidateQueries k c k' = c k'"
  by (simp add: invalidateQueries_apply option.map_ident)

lemma details_key_not_under_lists:
  "prefix (details shippingProfileQueryKeys ()) k
     \<Longrightarrow> \<not> prefix (lists shippingProfileQueryKeys ()) k"
  by (auto simp: shipping_lists shipping_details prefix_def)

text \<open>
  The path the hooks take when the caller's \<open>options\<close> bring no \<open>onSuccess\<close> and no
  \<open>mutationFn\<close> of their own: a successful create marks every entry under \<open>lists()\<close> stale
  and leaves the entries under \<open>details()\<close> as they are.
\<close>

lemma create_without_options:
  "mutate (useCreateShippingProfile None) net v c =
     (case net \<lparr>path = ''/vendor/shipping-profiles'', method' = POST,
                query = None, body = Some v\<rparr> of
        Inl e \<Rightarrow> (Inl e, c)
      | Inr d \<Rightarrow> (Inr d, invalidateQueries (lists shippingProfileQueryKeys ()) c))"
  by (simp add: mutate_def useCreateShippingProfile_def spreadOptions_def callOnSuccess_def
           split: sum.split)

lemma create_without_options_lists_stale:
  assumes "fst (mutate (useCreateShippingProfile None) net v c) = Inr d"
      and "prefix (lists shippingProfileQueryKeys ()) k" and "c k = Some e"
  shows "snd (mutate (useCreateShippingProfile None) net v c) k
           = Some (e\<lparr>isInvalidated := True\<rparr>)"
  using assms by (auto simp: create_without_options invalidateQueries_under split: sum.splits)

lemma create_without_options_details_kept:
  assumes "prefix (details shippingProfileQueryKeys ()) k"
  shows "snd (mutate (useCreateShippingProfile None) net v c) k = c k"
  using details_key_not_under_lists [OF assms]
  by (auto simp: create_without_options invalidateQueries_outside split: sum.splits)

lemma update_without_options:
  "mutate (useUpdateShippingProfile i None) net v c =
     (case net \<lparr>path = ''/vendor/shipping-profiles/'' @ i, method' = POST,
                query = None, body = Some v\<rparr> of
        Inl e \<Rightarrow> (Inl e, c)
      | Inr d \<Rightarrow>
          (Inr d, invalidateQueries (lists shippingProfileQueryKeys ())
                    (invalidateQueries (detail shippingProfileQueryKeys i None) c)))"
  by (simp add: mutate_def useUpdateShippingProfile_def spreadOptions_def callOnSuccess_def
           split: sum.split)

lemma delete_without_options:
  "mutate (useDeleteShippingProfile i None) net v c =
     (case net \<lparr>path = ''/vendor/shipping-profiles/'' @ i, method' = DELETE,
                query = None, body = None\<rparr> of
        Inl e \<Rightarrow> (Inl e, c)
      | Inr d \<Rightarrow>
          (Inr d, invalidateQueries (lists shippingProfileQueryKeys ())
                    (invalidateQueries (detail shippingProfileQueryKeys i None) c)))"
  by (simp add: mutate_def useDeleteShippingProfile_def spreadOptions_def callOnSuccess_def
           split: sum.split)

text \<open>
  The spread \<open>...options\<close> comes after the hook's own \<open>onSuccess\<close>: an \<open>onSuccess\<close>
  property of the caller's options, even an undefined one, replaces the handler that
  invalidates, and the call \<open>options?.onSuccess?.(...)\<close> inside that handler never runs.
\<close>

lemma options_onSuccess_replaces_handler:
  assumes "onSuccess opts \<noteq> Absent"
  shows "onSuccess (useCreateShippingProfile (Some opts)) = onSuccess opts"
    and "onSuccess (useUpdateShippingProfile i (Some opts)) = onSuccess opts"
    and "onSuccess (useDeleteShippingProfile i (Some opts)) = onSuccess opts"
  using assms
  by (cases "onSuccess opts";
      simp add: useCreateShippingProfile_def useUpdateShippingProfile_def
        useDeleteShippingProfile_def spreadOptions_def)+

text \<open>
  C1. A caller passes \<open>{ onSuccess: () => {} }\<close> to \<open>useCreateShippingProfile\<close>; the cache
  holds a fresh entry for \<open>list({limit: 20})\<close>, a key under \<open>lists()\<close>. The POST succeeds
  and the entry is still not invalidated: the hook has invalidated nothing.
\<close>

theorem useCreateShippingProfile_options_onSuccess_skips_invalidation:
  "mutate
     (useCreateShippingProfile (Some \<lparr>mutationFn = Absent, onSuccess = Defined (\<lambda>d v c. c)\<rparr>))
     (\<lambda>r. Inr (JObj [])) (JObj [(''name'', JStr ''Default'')])
     [list shippingProfileQueryKeys (Some (JObj [(''limit'', JNum 20)]))
        \<mapsto> \<lparr>state_data = JArr [], isInvalidated = False\<rparr>]
   = (Inr (JObj []),
      [list shippingProfileQueryKeys (Some (JObj [(''limit'', JNum 20)]))
        \<mapsto> \<lparr>state_data = JArr [], isInvalidated = False\<rparr>])"
  by (simp add: mutate_def useCreateShippingProfile_def spreadOptions_def)

text \<open>
  C2. The same for update and delete of \<open>sp_1\<close>: with \<open>{ onSuccess: () => {} }\<close> as
  options the request succeeds, and neither the entry at \<open>detail("sp_1")\<close> nor the one at
  \<open>list({limit: 20})\<close> is invalidated.
\<close>

theorem useUpdate_useDelete_options_onSuccess_skips_invalidation:
  "mutate
     (useUpdateShippingProfile ''sp_1''
        (Some \<lparr>mutationFn = Absent, onSuccess = Defined (\<lambda>d v c. c)\<rparr>))
     (\<lambda>r. Inr (JObj [])) (JObj [(''name'', JStr ''Renamed'')])
     [detail shippingProfileQueryKeys ''sp_1'' None
        \<mapsto> \<lparr>state_data = JObj [], isInvalidated = False\<rparr>,
      list shippingProfileQueryKeys (Some (JObj [(''limit'', JNum 20)]))
        \<mapsto> \<lparr>state_data = JArr [], isInvalidated = False\<rparr>]
   = (Inr (JObj []),
      [detail shippingProfileQueryKeys ''sp_1'' None
        \<mapsto> \<lparr>state_data = JObj [], isInvalidated = False\<rparr>,
       list shippingProfileQueryKeys (Some (JObj [(''limit'', JNum 20)]))
        \<mapsto> \<lparr>state_data = JArr [], isInvalidated = False\<rparr>])
   \<and> mutate
     (useDeleteShippingProfile ''sp_1''
        (Some \<lparr>mutationFn = Absent, onSuccess = Defined (\<lambda>d v c. c)\<rparr>))
     (\<lambda>r. Inr (JObj [])) JNull
     [detail shippingProfileQueryKeys ''sp_1'' None
        \<mapsto> \<lparr>state_data = JObj [], isInvalidated = False\<rparr>,
      list shippingProfileQueryKeys (Some (JObj [(''limit'', JNum 20)]))
        \<mapsto> \<lparr>state_data = JArr [], isInvalidated = False\<rparr>]
   = (Inr (JObj []),
      [detail shippingProfileQueryKeys ''sp_1'' None
        \<mapsto> \<lparr>state_data = JObj [], isInvalidated = False\<rparr>,
       list shippingProfileQueryKeys (Some (JObj [(''limit'', JNum 20)]))
        \<mapsto> \<lparr>state_data = JArr [], isInvalidated = False\<rparr>])"
  by (simp add: mutate_def useUpdateShippingProfile_def useDeleteShippingProfile_def
        spreadOptions_def)

text \<open>
  C7. After an update of id \<open>x\<close>, whatever the options and whatever the server answers,
  a cached entry under \<open>details()\<close> whose id component is not \<open>x\<close> is as it was before,
  provided the caller's own \<open>onSuccess\<close> callback, if there is one, leaves that entry
  alone (what the caller's code does to the cache is not the hook's doing).
\<close>

theorem update_leaves_other_details:
  assumes "prefix (details shippingProfileQueryKeys ()) k"
      and "idComponent k \<noteq> Some (JStr x)"
      and "\<forall>opts cb. options = Some opts \<and> onSuccess opts = Defined cb
             \<longrightarrow> (\<forall>d w c'. cb d w c' k = c' k)"
  shows "snd (mutate (useUpdateShippingProfile x options) net v c) k = c k"
proof -
  have nd: "\<not> prefix (detail shippingProfileQueryKeys x None) k"
    using assms(2) by (auto simp: shipping_detail idComponent_def prefix_def)
  have nl: "\<not> prefix (lists shippingProfileQueryKeys ()) k"
    using assms(1) by (rule details_key_not_under_lists)
  have inv: "invalidateQueries (lists shippingProfileQueryKeys ())
              (invalidateQueries (detail shippingProfileQueryKeys x None) c') k = c' k" for c'
    using nd nl by (simp add: invalidateQueries_outside)
  show ?thesis
  proof (cases options)
    case None
    then show ?thesis
      using inv by (simp add: update_without_options split: sum.split)
  next
    case (Some opts)
    show ?thesis
    proof (cases "onSuccess opts")
      case Absent
      with Some show ?thesis
        using inv
        by (cases "mutationFn opts")
           (simp_all add: mutate_def useUpdateShippingProfile_def spreadOptions_def
              callOnSuccess_def split: sum.split)
    next
      case Undefined
      with Some show ?thesis
        by (cases "mutationFn opts")
           (simp_all add: mutate_def useUpdateShippingProfile_def spreadOptions_def
              split: sum.split)
    next
      case (Defined cb)
      with Some assms(3) have "\<forall>d w c'. cb d w c' k = c' k" by blast
      with Some Defined show ?thesis
        by (cases "mutationFn opts")
           (simp_all add: mutate_def useUpdateShippingProfile_def spreadOptions_def
              split: sum.split)
    qed
  qed
qed

theorem update_leaves_other_details_witness:
  "prefix (details shippingProfileQueryKeys ()) (detail shippingProfileQueryKeys ''sp_2'' None)
   \<and> idComponent (detail shippingProfileQueryKeys ''sp_2'' None) \<noteq> Some (JStr ''sp_1'')
   \<and> snd (mutate (useUpdateShippingProfile ''sp_1'' None)
             (\<lambda>r. Inr (JObj [])) (JObj [(''name'', JStr ''Renamed'')])
             [detail shippingProfileQueryKeys ''sp_1'' None
                \<mapsto> \<lparr>state_data = JObj [], isInvalidated = False\<rparr>,
              detail shippingProfileQueryKeys ''sp_2'' None
                \<mapsto> \<lparr>state_data = JObj [], isInvalidated = False\<rparr>])
         (detail shippingProfileQueryKeys ''sp_2'' None)
       = Some \<lparr>state_data = JObj [], isInvalidated = False\<rparr>"
  using update_leaves_other_details
          [of "detail shippingProfileQueryKeys ''sp_2'' None" "''sp_1''" None
              "\<lambda>r. Inr (JObj [])" "JObj [(''name'', JStr ''Renamed'')]"
              "[detail shippingProfileQueryKeys ''sp_1'' None
                  \<mapsto> \<lparr>state_data = JObj [], isInvalidated = False\<rparr>,
                detail shippingProfileQueryKeys ''sp_2'' None
                  \<mapsto> \<lparr>state_data = JObj [], isInvalidated = False\<rparr>]"]
  by (simp add: shipping_detail shipping_details idComponent_def)

text \<open>In the same run the entry of the updated id itself is marked stale.\<close>

lemma update_marks_own_detail:
  "snd (mutate (useUpdateShippingProfile ''sp_1'' None)
             (\<lambda>r. Inr (JObj [])) (JObj [(''name'', JStr ''Renamed'')])
             [detail shippingProfileQueryKeys ''sp_1'' None
                \<mapsto> \<lparr>state_data = JObj [], isInvalidated = False\<rparr>,
              detail shippingProfileQueryKeys ''sp_2'' None
                \<mapsto> \<lparr>state_data = JObj [], isInvalidated = False\<rparr>])
         (detail shippingProfileQueryKeys ''sp_1'' None)
       = Some \<lparr>state_data = JObj [], isInvalidated = True\<rparr>"
  by (simp add: update_without_options invalidateQueries_apply shipping_detail shipping_lists)

section \<open>Requests and keys of the query hooks\<close>

text \<open>
  The get-one hook hands its \<open>query\<close> to \<open>fetchQuery\<close>; the list hook puts its \<open>query\<close>
  into the key only.
\<close>

lemma useShippingProfiles_query_never_sent:
  "query (queryFn (useShippingProfilesQuery q options)) = None"
  by (simp add: useShippingProfilesQuery_def)

lemma useShippingProfile_query_sent:
  "query (queryFn (useShippingProfileQuery i q options)) = q"
  by (simp add: useShippingProfileQuery_def)

text \<open>
  C3. \<open>useShippingProfiles({limit: 20})\<close> caches under \<open>list({limit: 20})\<close>, and the request
  it issues is \<open>GET /vendor/shipping-profiles\<close> with no query-parameter object.
\<close>

theorem useShippingProfiles_request_drops_query:
  "queryKey (useShippingProfilesQuery (Some (JObj [(''limit'', JNum 20)])) None)
     = [JStr ''shipping_profile'', JStr ''list'', JObj [(''limit'', JNum 20)]]
   \<and> queryFn (useShippingProfilesQuery (Some (JObj [(''limit'', JNum 20)])) None)
     = \<lparr>path = ''/vendor/shipping-profiles'', method' = GET, query = None, body = None\<rparr>"
  by (simp add: useShippingProfilesQuery_def shipping_list)

section \<open>Route loader\<close>

lemma ensureQueryData_takes_key_and_fn:
  assumes "queryKey a = queryKey b" and "queryFn a = queryFn b"
  shows "ensureQueryData a net c = ensureQueryData b net c"
  unfolding ensureQueryData_def assms ..

text \<open>
  C4. For every route id the loader's query has the key and the request of the get-one
  hook called with that id (and no query refinement), whatever options the hook gets, so
  the loader ensures the data of exactly the hook's query.
\<close>

theorem shippingProfileLoader_same_query_as_hook:
  "queryKey (shippingProfileQuery i) = queryKey (useShippingProfileQuery i None options)
   \<and> queryFn (shippingProfileQuery i) = queryFn (useShippingProfileQuery i None options)
   \<and> shippingProfileLoader \<lparr>shipping_profile_id = i\<rparr> net c
       = ensureQueryData (useShippingProfileQuery i None options) net c"
proof -
  have k: "queryKey (shippingProfileQuery i) = queryKey (useShippingProfileQuery i None options)"
    by (simp add: shippingProfileQuery_def useShippingProfileQuery_def)
  have f: "queryFn (shippingProfileQuery i) = queryFn (useShippingProfileQuery i None options)"
    by (simp add: shippingProfileQuery_def useShippingProfileQuery_def)
  have "shippingProfileLoader \<lparr>shipping_profile_id = i\<rparr> net c
          = ensureQueryData (shippingProfileQuery i) net c"
    by (simp add: shippingProfileLoader_def)
  also have "\<dots> = ensureQueryData (useShippingProfileQuery i None options) net c"
    using k f by (rule ensureQueryData_takes_key_and_fn)
  finally show ?thesis
    using k f by simp
qed

text \<open>
  A loader that returns data leaves a fresh entry with that data at the hook's key. A hook
  called with a query refinement reads another key.
\<close>

lemma loader_warms_hook_key:
  assumes "fst (shippingProfileLoader \<lparr>shipping_profile_id = i\<rparr> net c) = Inr d"
  shows "\<exists>e. snd (shippingProfileLoader \<lparr>shipping_profile_id = i\<rparr> net c)
               (queryKey (useShippingProfileQuery i None options)) = Some e
             \<and> state_data e = d \<and> \<not> isInvalidated e"
  using assms
  by (auto simp: shippingProfileQuery_def useShippingProfileQuery_def shippingProfileLoader_def
        ensureQueryData_def Let_def split: option.splits sum.splits if_splits)

lemma hook_with_query_uses_other_key:
  "queryKey (useShippingProfileQuery i (Some q) options) \<noteq> queryKey (shippingProfileQuery i)"
  by (simp add: shippingProfileQuery_def useShippingProfileQuery_def shipping_detail)

section \<open>Error propagation\<close>

lemma useQuery_failed:
  "net (queryFn opts) = Inl e
     \<Longrightarrow> isError (spreadResult (useQuery opts net))
         \<and> error (spreadResult (useQuery opts net)) = Some e"
  by (simp add: useQuery_def spreadResult_def)

text \<open>
  C9. Whenever the request of the list hook or of the get-one hook fails with \<open>e\<close>, the
  hook returns \<open>isError = true\<close> and \<open>error = e\<close>; and whenever the list hook of the
  inventory table returns \<open>isError = true\<close> and \<open>error = e\<close>, the component throws \<open>e\<close>
  and renders nothing.
\<close>

theorem hooks_expose_fetch_error:
  "(net (queryFn (useShippingProfilesQuery q options)) = Inl e \<longrightarrow>
      isError (useShippingProfiles q options net)
      \<and> error (useShippingProfiles q options net) = Some e)
   \<and> (net (queryFn (useShippingProfileQuery i q' options')) = Inl e \<longrightarrow>
      isError (useShippingProfile i q' options' net)
      \<and> error (useShippingProfile i q' options' net) = Some e)
   \<and> (isError (h (inventoryItemsParams offset))
        \<and> error (h (inventoryItemsParams offset)) = Some e \<longrightarrow>
      InventoryListTable h offset = Inl (Some e))"
  by (simp add: useQuery_failed useShippingProfiles_def useShippingProfile_def
        InventoryListTable_def)

theorem hooks_expose_fetch_error_witness:
  "isError (useShippingProfiles (Some (JObj [(''limit'', JNum 20)])) None
              (\<lambda>r. Inl (FetchError ''Not Found'' 404)))
   \<and> error (useShippingProfiles (Some (JObj [(''limit'', JNum 20)])) None
              (\<lambda>r. Inl (FetchError ''Not Found'' 404)))
       = Some (FetchError ''Not Found'' 404)
   \<and> isError (useShippingProfile ''sp_1'' None None (\<lambda>r. Inl (FetchError ''Not Found'' 404)))
   \<and> error (useShippingProfile ''sp_1'' None None (\<lambda>r. Inl (FetchError ''Not Found'' 404)))
       = Some (FetchError ''Not Found'' 404)
   \<and> InventoryListTable
        (\<lambda>p. \<lparr>isPending = False, isError = True,
               error = Some (FetchError ''Not Found'' 404), dataFields = []\<rparr>)
        (Some (JNum 20))
       = Inl (Some (FetchError ''Not Found'' 404))"
  using hooks_expose_fetch_error
          [of "\<lambda>r. Inl (FetchError ''Not Found'' 404)" "Some (JObj [(''limit'', JNum 20)])"
              None "FetchError ''Not Found'' 404" "''sp_1''" None None
              "\<lambda>p. \<lparr>isPending = False, isError = True,
                     error = Some (FetchError ''Not Found'' 404), dataFields = []\<rparr>"
              "Some (JNum 20)"]
  by simp

text \<open>Without an error the component renders the rows of the response.\<close>

lemma InventoryListTable_renders:
  "InventoryListTable
     (\<lambda>p. \<lparr>isPending = False, isError = False, error = None,
            dataFields = [(''inventory_items'', JArr [JStr ''item_1'']),
                          (''count'', JNum 1)]\<rparr>)
     None
   = Inr \<lparr>rows = JArr [JStr ''item_1''], count = Some (JNum 1), isLoading = False\<rparr>"
  by (simp add: InventoryListTable_def)

section \<open>Submit handler of the edit-store form\<close>

text \<open>
  C10, as stated, fails where the upload rejects with a value that is not an \<open>Error\<close>:
  the handler catches it and sends the update with the seller's existing photo, but no
  notification is shown for it.
\<close>

theorem handleSubmit_non_Error_no_notification:
  "events (handleSubmit
       \<lparr>name = ''Shop'', description = None, phone = None, email = None,
        storeVendor.photo = Some ''old.png''\<rparr>
       (\<lambda>ms. Inl (NonError (JStr ''offline''))) (\<lambda>p. Inr JNull)
       \<lparr>name = ''Shop'', description = None, phone = None, email = None,
        media = Some [JStr ''logo.png'']\<rparr>)
   = [MutateAsync \<lparr>name = ''Shop'', description = None, phone = None, email = None,
                   updateMe.photo = ''old.png''\<rparr>,
      ToastSuccess ''Store updated'', HandleSuccess]"
  by (simp add: handleSubmit_def)

text \<open>
  C10, amended. If the upload of the selected media throws \<open>err\<close>, the handler catches
  it, shows its message as a notification when \<open>err\<close> is an \<open>Error\<close> (and nothing
  otherwise), and then still calls \<open>mutateAsync\<close>, with the photo being the seller's
  existing photo or else the empty string; what follows is the notification of the
  mutation's own outcome.
\<close>

theorem handleSubmit_upload_throws:
  assumes "media values = Some ms" and "ms \<noteq> []" and "uploadFilesQuery ms = Inl err"
  shows "events (handleSubmit seller uploadFilesQuery mutateAsync values)
           = (if instanceofError err then [ToastError (message err)] else [])
             @ MutateAsync
                 \<lparr>name = name values, description = description values,
                  phone = phone values, email = email values,
                  updateMe.photo =
                    (case storeVendor.photo seller of None \<Rightarrow> [] | Some p \<Rightarrow> p)\<rparr>
             # (case mutateAsync
                       \<lparr>name = name values, description = description values,
                        phone = phone values, email = email values,
                        updateMe.photo =
                          (case storeVendor.photo seller of None \<Rightarrow> [] | Some p \<Rightarrow> p)\<rparr> of
                  Inr d \<Rightarrow> [ToastSuccess ''Store updated'', HandleSuccess]
                | Inl e \<Rightarrow> [ToastError (message e)])"
  using assms by (simp add: handleSubmit_def Let_def split: sum.split)

theorem handleSubmit_upload_throws_witness:
  "events (handleSubmit
       \<lparr>name = ''Shop'', description = None, phone = None, email = None,
        storeVendor.photo = None\<rparr>
       (\<lambda>ms. Inl (Error ''upload failed'')) (\<lambda>p. Inl (FetchError ''Bad Gateway'' 502))
       \<lparr>name = ''Shop 2'', description = None, phone = None, email = None,
        media = Some [JStr ''logo.png'']\<rparr>)
   = [ToastError ''upload failed'',
      MutateAsync \<lparr>name = ''Shop 2'', description = None, phone = None, email = None,
                   updateMe.photo = []\<rparr>,
      ToastError ''Bad Gateway'']"
  using handleSubmit_upload_throws
          [of "\<lparr>name = ''Shop 2'', description = None, phone = None, email = None,
                media = Some [JStr ''logo.png'']\<rparr>"
              "[JStr ''logo.png'']" "\<lambda>ms. Inl (Error ''upload failed'')"
              "Error ''upload failed''"
              "\<lparr>name = ''Shop'', description = None, phone = None, email = None,
                storeVendor.photo = None\<rparr>"
              "\<lambda>p. Inl (FetchError ''Bad Gateway'' 502)"]
  by simp

text \<open>With an upload that succeeds the photo is the url of the first uploaded file.\<close>

lemma handleSubmit_upload_succeeds:
  "events (handleSubmit
       \<lparr>name = ''Shop'', description = None, phone = None, email = None,
        storeVendor.photo = Some ''old.png''\<rparr>
       (\<lambda>ms. Inr [\<lparr>file_id = ''f1'', url = ''https://cdn/new.png''\<rparr>]) (\<lambda>p. Inr JNull)
       \<lparr>name = ''Shop'', description = None, phone = None, email = None,
        media = Some [JStr ''logo.png'']\<rparr>)
   = [MutateAsync \<lparr>name = ''Shop'', description = None, phone = None, email = None,
                   updateMe.photo = ''https://cdn/new.png''\<rparr>,
      ToastSuccess ''Store updated'', HandleSuccess]"
  by (simp add: handleSubmit_def)

end
